theory Spec2Isabelle
  imports Main "HOL-Library.List_Lexorder" "HOL-Library.Char_ord" "HOL-Library.Option_ord"
begin

section \<open>Values of the Python program\<close>

text \<open>
  Decoded JSON documents (what \<^verbatim>\<open>json.loads\<close> returns and \<^verbatim>\<open>json.dumps\<close> takes):
  \<^verbatim>\<open>None\<close>, booleans, integers, strings, lists and dictionaries with string keys (an
  association list, looked up from the left).
\<close>

datatype json =
    JNull
  | JBool bool
  | JNum int
  | JStr string
  | JList "json list"
  | JDict "(string \<times> json) list"

text \<open>
  A TEXT cell of the table. It is either the serialisation \<^verbatim>\<open>json.dumps(d)\<close> of a document
  \<open>d\<close>, which \<^verbatim>\<open>json.loads\<close> reads back as \<open>d\<close>, or a text that \<^verbatim>\<open>json.loads\<close> rejects
  (the empty text is one of them).
\<close>

datatype cell = Dumps json | Unparsable string

text \<open>The exceptions the modelled code can raise, each with its message.\<close>

datatype exn =
    AttributeError string
  | TypeError string
  | JSONDecodeError string
  | Raised string

fun str_exn :: "exn \<Rightarrow> string" where
  "str_exn (AttributeError m) = m"
| "str_exn (TypeError m) = m"
| "str_exn (JSONDecodeError m) = m"
| "str_exn (Raised m) = m"

text \<open>
  Timestamps are the ISO-8601 texts of \<^verbatim>\<open>datetime.now().isoformat()\<close>; SQLite stores them
  as text and \<^verbatim>\<open>ORDER BY\<close> compares them as text, character by character.
\<close>

type_synonym timestamp = string

fun json_loads :: "cell \<Rightarrow> exn + json" where
  "json_loads (Dumps d) = Inr d"
| "json_loads (Unparsable s) = Inl (JSONDecodeError s)"

text \<open>Truth value of a text cell (\<^verbatim>\<open>if event['raw_data']\<close>): only the empty text is false.\<close>

fun text_truthy :: "cell \<Rightarrow> bool" where
  "text_truthy (Dumps d) = True"
| "text_truthy (Unparsable s) = (s \<noteq> [])"

fun py_truthy :: "json \<Rightarrow> bool" where
  "py_truthy JNull = False"
| "py_truthy (JBool b) = b"
| "py_truthy (JNum n) = (n \<noteq> 0)"
| "py_truthy (JStr s) = (s \<noteq> [])"
| "py_truthy (JList xs) = (xs \<noteq> [])"
| "py_truthy (JDict kvs) = (kvs \<noteq> [])"

text \<open>\<^verbatim>\<open>x.get(k, default)\<close>: only a dictionary has the method.\<close>

fun py_get :: "json \<Rightarrow> string \<Rightarrow> json \<Rightarrow> exn + json" where
  "py_get (JDict kvs) k dflt = Inr (case map_of kvs k of None \<Rightarrow> dflt | Some v \<Rightarrow> v)"
| "py_get x k dflt = Inl (AttributeError ''get'')"

text \<open>
  \<^verbatim>\<open>for a in x\<close>: a list yields its elements, a dictionary its keys, a string its
  characters; nothing else is iterable.
\<close>

fun py_iter :: "json \<Rightarrow> exn + json list" where
  "py_iter (JList xs) = Inr xs"
| "py_iter (JDict kvs) = Inr (map (\<lambda>kv. JStr (fst kv)) kvs)"
| "py_iter (JStr s) = Inr (map (\<lambda>c. JStr [c]) s)"
| "py_iter x = Inl (TypeError ''not iterable'')"

fun py_len :: "json \<Rightarrow> exn + int" where
  "py_len (JList xs) = Inr (int (length xs))"
| "py_len (JDict kvs) = Inr (int (length kvs))"
| "py_len (JStr s) = Inr (int (length s))"
| "py_len x = Inl (TypeError ''no len'')"

definition is_space :: "char \<Rightarrow> bool" where
  "is_space c = (c \<in> set [CHR '' '', CHR 0x09, CHR 0x0A, CHR 0x0B, CHR 0x0C, CHR 0x0D])"

definition py_strip :: "string \<Rightarrow> string" where
  "py_strip s = rev (dropWhile is_space (rev (dropWhile is_space s)))"

text \<open>Sequencing of a computation that may raise.\<close>

fun and_then :: "exn + 'a \<Rightarrow> ('a \<Rightarrow> exn + 'b) \<Rightarrow> exn + 'b" where
  "and_then (Inl e) f = Inl e"
| "and_then (Inr x) f = f x"

fun try_map :: "('a \<Rightarrow> exn + 'b) \<Rightarrow> 'a list \<Rightarrow> exn + 'b list" where
  "try_map f [] = Inr []"
| "try_map f (x # xs) =
     and_then (f x) (\<lambda>y. and_then (try_map f xs) (\<lambda>ys. Inr (y # ys)))"


section \<open>The event store (database.py)\<close>

text \<open>Column \<^verbatim>\<open>direction\<close>: \<^verbatim>\<open>'I'\<close> or \<^verbatim>\<open>'O'\<close>.\<close>

datatype direction = Inbound | Outbound

text \<open>A row of \<^verbatim>\<open>common_event\<close>; a nullable column is an option.\<close>

record event =
  event_id :: int
  received_at :: timestamp
  direction :: direction
  raw_data :: "cell option"
  converted_at :: "timestamp option"
  converted_data :: "cell option"
  sent_at :: "timestamp option"
  response_data :: "cell option"
  status :: int
  kind :: string
  updated_at :: "timestamp option"
  error_count :: int

text \<open>A row of \<^verbatim>\<open>common_eventerror\<close>.\<close>

record eventerror =
  error_id :: int
  created_at :: timestamp
  error :: string
  error_event_id :: int

text \<open>
  The database file: both tables, rows in rowid order, and for each table the largest
  rowid AUTOINCREMENT has handed out (\<^verbatim>\<open>sqlite_sequence\<close>).
\<close>

record database =
  common_event :: "event list"
  common_eventerror :: "eventerror list"
  event_seq :: int
  eventerror_seq :: int

definition next_rowid :: "int list \<Rightarrow> int \<Rightarrow> int" where
  "next_rowid ids seq = fold max ids seq + 1"

text \<open>
  The members of the enum \<^verbatim>\<open>EventStatus\<close>, in the order of the class body, and the
  attribute access \<^verbatim>\<open>EventStatus.NAME\<close>, which raises for a name the class does not have.
\<close>

definition EventStatus_members :: "(string \<times> int) list" where
  "EventStatus_members =
     [(''INITIAL'', 0), (''CONVERTED'', 10), (''READY_TO_SEND'', 20), (''SENT'', 40),
      (''OUTBOUND_READY'', 10), (''PROCESSING'', 50), (''COMPLETE'', 100),
      (''PENDING'', 0), (''EXPIRED'', 100)]"

definition EventStatus :: "string \<Rightarrow> exn + int" where
  "EventStatus name =
     (case map_of EventStatus_members name of
        None \<Rightarrow> Inl (AttributeError name)
      | Some v \<Rightarrow> Inr v)"

definition PENDING :: int where "PENDING = 0"
definition CONVERTED :: int where "CONVERTED = 10"
definition SENT :: int where "SENT = 40"
definition EXPIRED :: int where "EXPIRED = 100"

text \<open>
  \<^verbatim>\<open>UPDATE common_event SET ... WHERE id = ?\<close>: the assignment \<open>f\<close> is applied to every row
  with the id; \<^verbatim>\<open>cursor.rowcount\<close> is the number of such rows.
\<close>

definition update_rows :: "int \<Rightarrow> (event \<Rightarrow> event) \<Rightarrow> database \<Rightarrow> database" where
  "update_rows eid f db =
     db\<lparr>common_event := map (\<lambda>r. if event_id r = eid then f r else r) (common_event db)\<rparr>"

definition rowcount :: "int \<Rightarrow> database \<Rightarrow> nat" where
  "rowcount eid db = length (filter (\<lambda>r. event_id r = eid) (common_event db))"

text \<open>
  \<^verbatim>\<open>ORDER BY col\<close> (ascending). A NULL sorts before every value, as \<open>None\<close> is below
  every \<open>Some t\<close>. SQL leaves the order of rows with equal keys open; here they keep the
  order of the table.
\<close>

definition order_by :: "('r \<Rightarrow> 'k::linorder) \<Rightarrow> 'r list \<Rightarrow> 'r list" where
  "order_by col rows = sort_key col rows"

definition create_event :: "database \<Rightarrow> json \<Rightarrow> string \<Rightarrow> timestamp \<Rightarrow> int \<times> database" where
  "create_event db raw knd now =
     (let new_id = next_rowid (map event_id (common_event db)) (event_seq db);
          row = \<lparr>event_id = new_id, received_at = now, direction = Inbound,
                 raw_data = Some (Dumps raw), converted_at = None, converted_data = None,
                 sent_at = None, response_data = None, status = PENDING, kind = knd,
                 updated_at = Some now, error_count = 0\<rparr>
      in (new_id, db\<lparr>common_event := common_event db @ [row], event_seq := new_id\<rparr>))"

definition update_event_converted ::
  "database \<Rightarrow> int \<Rightarrow> json \<Rightarrow> timestamp \<Rightarrow> bool \<times> database" where
  "update_event_converted db eid converted now =
     (rowcount eid db > 0,
      update_rows eid
        (\<lambda>r. r\<lparr>converted_at := Some now, converted_data := Some (Dumps converted),
               status := CONVERTED, updated_at := Some now\<rparr>) db)"

definition update_event_sent ::
  "database \<Rightarrow> int \<Rightarrow> json \<Rightarrow> timestamp \<Rightarrow> bool \<times> database" where
  "update_event_sent db eid response now =
     (rowcount eid db > 0,
      update_rows eid
        (\<lambda>r. r\<lparr>sent_at := Some now, response_data := Some (Dumps response),
               status := SENT, updated_at := Some now\<rparr>) db)"

definition expire_event :: "database \<Rightarrow> int \<Rightarrow> timestamp \<Rightarrow> bool \<times> database" where
  "expire_event db eid now =
     (rowcount eid db > 0,
      update_rows eid (\<lambda>r. r\<lparr>status := EXPIRED, updated_at := Some now\<rparr>) db)"

text \<open>
  \<^verbatim>\<open>record_error\<close> works inside one transaction: the INSERT is executed, then the
  arguments of the UPDATE are evaluated (\<^verbatim>\<open>EventStatus.ERROR\<close> among them), the UPDATE
  is executed and the transaction committed. An exception on the way leaves through
  \<^verbatim>\<open>finally: conn.close()\<close>, which discards what was not committed.
\<close>

definition record_error ::
  "database \<Rightarrow> int \<Rightarrow> string \<Rightarrow> timestamp \<Rightarrow> (exn + int) \<times> database" where
  "record_error db eid error_message now =
     (let new_id = next_rowid (map error_id (common_eventerror db)) (eventerror_seq db);
          row = \<lparr>error_id = new_id, created_at = now, error = error_message,
                 error_event_id = eid\<rparr>;
          tx = db\<lparr>common_eventerror := common_eventerror db @ [row],
                  eventerror_seq := new_id\<rparr>
      in case EventStatus ''ERROR'' of
           Inl e \<Rightarrow> (Inl e, db)
         | Inr st \<Rightarrow>
             (Inr new_id,
              update_rows eid
                (\<lambda>r. r\<lparr>error_count := error_count r + 1, status := st,
                       updated_at := Some now\<rparr>) tx))"

definition get_event :: "database \<Rightarrow> int \<Rightarrow> event option" where
  "get_event db eid = find (\<lambda>r. event_id r = eid) (common_event db)"

definition get_pending_events :: "database \<Rightarrow> event list" where
  "get_pending_events db =
     order_by received_at (filter (\<lambda>r. status r = PENDING) (common_event db))"

definition get_converted_events :: "database \<Rightarrow> event list" where
  "get_converted_events db =
     order_by converted_at
       (filter (\<lambda>r. status r = CONVERTED) (common_event db))"


section \<open>The result processor (result_processor.py)\<close>

definition processor_STATUS_OUTBOUND_READY :: int where
  "processor_STATUS_OUTBOUND_READY = 10"

definition processor_STATUS_PROCESSING :: int where
  "processor_STATUS_PROCESSING = 50"

definition processor_STATUS_COMPLETE :: int where
  "processor_STATUS_COMPLETE = 100"

definition MAX_ERRORS :: int where
  "MAX_ERRORS = 4"

text \<open>
  The columns \<^verbatim>\<open>_get_pending_results\<close> selects:
  \<^verbatim>\<open>id, received_at, raw_data, status, kind, error_count\<close>.
\<close>

record pending_row =
  sel_id :: int
  sel_received_at :: timestamp
  sel_raw_data :: "cell option"
  sel_status :: int
  sel_kind :: string
  sel_error_count :: int

definition select_pending :: "event \<Rightarrow> pending_row" where
  "select_pending r =
     \<lparr>sel_id = event_id r, sel_received_at = received_at r, sel_raw_data = raw_data r,
      sel_status = status r, sel_kind = kind r, sel_error_count = error_count r\<rparr>"

definition get_pending_results :: "database \<Rightarrow> pending_row list" where
  "get_pending_results db =
     map select_pending
       (order_by received_at
          (filter (\<lambda>r. direction r = Outbound \<and> status r = processor_STATUS_OUTBOUND_READY)
             (common_event db)))"

text \<open>
  \<^verbatim>\<open>_update_status\<close>: the long UPDATE when both documents are given and true
  (\<^verbatim>\<open>if converted_data and response_data\<close>), the short one otherwise.
\<close>

definition update_status ::
  "database \<Rightarrow> int \<Rightarrow> int \<Rightarrow> json option \<Rightarrow> json option \<Rightarrow> timestamp \<Rightarrow> bool \<times> database" where
  "update_status db eid st converted response now =
     (rowcount eid db > 0,
      (case (converted, response) of
         (Some c, Some rsp) \<Rightarrow>
           if py_truthy c \<and> py_truthy rsp
           then update_rows eid
                  (\<lambda>r. r\<lparr>status := st, converted_at := Some now,
                         converted_data := Some (Dumps c), sent_at := Some now,
                         response_data := Some (Dumps rsp), updated_at := Some now\<rparr>) db
           else update_rows eid (\<lambda>r. r\<lparr>status := st, updated_at := Some now\<rparr>) db
       | _ \<Rightarrow> update_rows eid (\<lambda>r. r\<lparr>status := st, updated_at := Some now\<rparr>) db))"

text \<open>
  \<^verbatim>\<open>_increment_error\<close>: reads the error count of the row (\<^verbatim>\<open>fetchone\<close>: the first row with
  the id), returns \<open>False\<close> when there is none, and otherwise writes the count plus one;
  at \<open>MAX_ERRORS\<close> it also writes the status \<^verbatim>\<open>-abs(current_status)\<close>, of the status the
  caller passed. The message is a parameter the body never reads.
\<close>

definition increment_error ::
  "database \<Rightarrow> int \<Rightarrow> int \<Rightarrow> string \<Rightarrow> timestamp \<Rightarrow> bool \<times> database" where
  "increment_error db eid current_status error_message now =
     (case find (\<lambda>r. event_id r = eid) (common_event db) of
        None \<Rightarrow> (False, db)
      | Some row \<Rightarrow>
          (let new_error_count = error_count row + 1 in
           if new_error_count \<ge> MAX_ERRORS
           then (True,
                 update_rows eid
                   (\<lambda>r. r\<lparr>status := - \<bar>current_status\<bar>, error_count := new_error_count,
                          updated_at := Some now\<rparr>) db)
           else (False,
                 update_rows eid
                   (\<lambda>r. r\<lparr>error_count := new_error_count, updated_at := Some now\<rparr>) db)))"

text \<open>
  \<^verbatim>\<open>_process_assessment_result\<close>. \<open>str_of\<close> is Python's \<^verbatim>\<open>str()\<close> on a decoded value, which
  the f-string applies to the two name fields; \<open>now\<close> is the clock reading.
\<close>

definition assessment_summary :: "json \<Rightarrow> exn + json" where
  "assessment_summary a =
     and_then (py_get a ''assessment_id'' JNull) (\<lambda>aid.
     and_then (py_get a ''assessment_name'' JNull) (\<lambda>aname.
     and_then (py_get a ''assessment_type'' JNull) (\<lambda>atype.
     and_then (py_get a ''total_score_value'' JNull) (\<lambda>total.
     and_then (py_get a ''total_score_legend'' JNull) (\<lambda>legend.
     and_then (if py_truthy legend then Inr legend
               else py_get a ''patient_score_legend_value'' JNull) (\<lambda>severity.
     and_then (py_get a ''flagged_abnormal'' (JBool False)) (\<lambda>flagged.
     and_then (py_get a ''assessment_clinical_notes'' JNull) (\<lambda>notes.
     and_then (py_get a ''assessment_items'' (JList [])) (\<lambda>items.
     and_then (py_len items) (\<lambda>n.
       Inr (JDict [(''assessment_id'', aid), (''assessment_name'', aname),
                   (''assessment_type'', atype), (''total_score'', total),
                   (''severity'', severity), (''flagged_abnormal'', flagged),
                   (''clinical_notes'', notes), (''item_count'', JNum n)])))))))))))"

definition process_assessment_result ::
  "(json \<Rightarrow> string) \<Rightarrow> pending_row \<Rightarrow> timestamp \<Rightarrow> exn + json" where
  "process_assessment_result str_of ev now =
     and_then (case sel_raw_data ev of
                 None \<Rightarrow> Inr (JDict [])
               | Some c \<Rightarrow> if text_truthy c then json_loads c else Inr (JDict [])) (\<lambda>raw.
     and_then (py_get raw ''data'' raw) (\<lambda>data.
     and_then (py_get data ''patient'' (JDict [])) (\<lambda>patient.
     and_then (py_get data ''assessment'' (JList [])) (\<lambda>assessments.
     and_then (py_get patient ''patient_id'' JNull) (\<lambda>pid.
     and_then (py_get patient ''patient_first_name'' (JStr [])) (\<lambda>first_name.
     and_then (py_get patient ''patient_last_name'' (JStr [])) (\<lambda>last_name.
     and_then (py_iter assessments) (\<lambda>elements.
     and_then (try_map assessment_summary elements) (\<lambda>summaries.
     and_then (py_get data ''assessment_response_url'' JNull) (\<lambda>url.
       Inr (JDict [(''event_id'', JNum (sel_id ev)), (''processed_at'', JStr now),
                   (''patient_id'', pid),
                   (''patient_name'',
                      JStr (py_strip (str_of first_name @ '' '' @ str_of last_name))),
                   (''assessments'', JList summaries), (''pdf_url'', url)])))))))))))"

text \<open>
  \<^verbatim>\<open>_process_single_result\<close>. The registered callback is \<open>None\<close> or a function that returns
  (\<open>None\<close>) or raises (\<open>Some e\<close>). The result is what the method returns, the database
  and the summaries handed to the callback. Whatever the \<^verbatim>\<open>try\<close> block raises is caught
  and answered by \<^verbatim>\<open>_increment_error(event_id, STATUS_OUTBOUND_READY, str(e))\<close>.
  The clock reading \<open>now\<close> stands for every \<^verbatim>\<open>datetime.now()\<close> of the call.
\<close>

definition process_single_result ::
  "(json \<Rightarrow> string) \<Rightarrow> (json \<Rightarrow> exn option) option \<Rightarrow> database \<Rightarrow> pending_row \<Rightarrow> timestamp
     \<Rightarrow> bool \<times> database \<times> json list" where
  "process_single_result str_of on_result_processed db ev now =
     (let eid = sel_id ev;
          db1 = snd (update_status db eid processor_STATUS_PROCESSING None None now)
      in case process_assessment_result str_of ev now of
           Inl e \<Rightarrow>
             (False,
              snd (increment_error db1 eid processor_STATUS_OUTBOUND_READY (str_exn e) now),
              [])
         | Inr result_summary \<Rightarrow>
             (let response =
                    JDict [(''processed'', JBool True), (''processed_at'', JStr now),
                           (''summary'', result_summary), (''status'', JStr ''success'')];
                  db2 = snd (update_status db1 eid processor_STATUS_COMPLETE
                               (Some result_summary) (Some response) now)
              in case on_result_processed of
                   None \<Rightarrow> (True, db2, [])
                 | Some callback \<Rightarrow>
                     (case callback result_summary of
                        None \<Rightarrow> (True, db2, [result_summary])
                      | Some e \<Rightarrow>
                          (False,
                           snd (increment_error db2 eid processor_STATUS_OUTBOUND_READY
                                  (str_exn e) now),
                           [result_summary]))))"

text \<open>
  The loop \<^verbatim>\<open>for event in pending\<close> of \<^verbatim>\<open>process_now\<close> and \<^verbatim>\<open>_poll_and_process\<close>: the
  number of events processed successfully, the database, the summaries handed out.
\<close>

fun process_each ::
  "(json \<Rightarrow> string) \<Rightarrow> (json \<Rightarrow> exn option) option \<Rightarrow> database \<Rightarrow> pending_row list \<Rightarrow> timestamp
     \<Rightarrow> nat \<times> database \<times> json list" where
  "process_each str_of cb db [] now = (0, db, [])"
| "process_each str_of cb db (ev # evs) now =
     (case process_single_result str_of cb db ev now of
        (ok, db1, out1) \<Rightarrow>
          (case process_each str_of cb db1 evs now of
             (n, db2, out2) \<Rightarrow> ((if ok then 1 else 0) + n, db2, out1 @ out2)))"

definition process_now ::
  "(json \<Rightarrow> string) \<Rightarrow> (json \<Rightarrow> exn option) option \<Rightarrow> database \<Rightarrow> timestamp
     \<Rightarrow> nat \<times> database \<times> json list" where
  "process_now str_of cb db now = process_each str_of cb db (get_pending_results db) now"

definition poll_and_process ::
  "(json \<Rightarrow> string) \<Rightarrow> (json \<Rightarrow> exn option) option \<Rightarrow> database \<Rightarrow> timestamp
     \<Rightarrow> database \<times> json list" where
  "poll_and_process str_of cb db now =
     snd (process_each str_of cb db (get_pending_results db) now)"


section \<open>The response simulator (mht_simulator.py)\<close>

definition simulator_STATUS_OUTBOUND_READY :: int where
  "simulator_STATUS_OUTBOUND_READY = 100"

text \<open>
  \<^verbatim>\<open>_create_outbound_event\<close>. \<open>mock_response\<close> is the document \<^verbatim>\<open>_generate_mock_assessment\<close>
  returned (it draws random scores and reads the clock).
\<close>

definition create_outbound_event ::
  "database \<Rightarrow> int \<Rightarrow> json \<Rightarrow> timestamp \<Rightarrow> int \<times> database" where
  "create_outbound_event db inbound_event_id mock_response now =
     (let new_id = next_rowid (map event_id (common_event db)) (event_seq db);
          row = \<lparr>event_id = new_id, received_at = now, direction = Outbound,
                 raw_data = Some (Dumps mock_response), converted_at = None,
                 converted_data = None, sent_at = None, response_data = None,
                 status = simulator_STATUS_OUTBOUND_READY, kind = ''assessment_result'',
                 updated_at = Some now, error_count = 0\<rparr>
      in (new_id, db\<lparr>common_event := common_event db @ [row], event_seq := new_id\<rparr>))"


section \<open>The outbound worker (outbound_worker.py)\<close>

definition STATUS_READY :: int where "STATUS_READY = 100"
definition worker_STATUS_PROCESSING :: int where "worker_STATUS_PROCESSING = 50"
definition STATUS_DONE :: int where "STATUS_DONE = 200"
definition STATUS_ERROR :: int where "STATUS_ERROR = - 100"

definition get_ready_outbound_events :: "database \<Rightarrow> event list" where
  "get_ready_outbound_events db =
     order_by event_id
       (filter (\<lambda>r. direction r = Outbound \<and> status r = STATUS_READY) (common_event db))"

definition update_event_status :: "database \<Rightarrow> int \<Rightarrow> int \<Rightarrow> timestamp \<Rightarrow> database" where
  "update_event_status db eid st now =
     update_rows eid (\<lambda>r. r\<lparr>status := st, updated_at := Some now\<rparr>) db"

text \<open>
  The first part of the \<^verbatim>\<open>try\<close> block of \<^verbatim>\<open>_process_event\<close>: the patient name and the list
  of assessments read from the raw document (\<^verbatim>\<open>json.loads(None)\<close> is a \<^verbatim>\<open>TypeError\<close>).
\<close>

definition read_event :: "(json \<Rightarrow> string) \<Rightarrow> event \<Rightarrow> exn + string \<times> json list" where
  "read_event str_of ev =
     and_then (case raw_data ev of
                 None \<Rightarrow> Inl (TypeError ''the JSON object must be str'')
               | Some c \<Rightarrow> json_loads c) (\<lambda>raw.
     and_then (py_get raw ''data'' raw) (\<lambda>data.
     and_then (py_get data ''patient'' (JDict [])) (\<lambda>patient.
     and_then (py_get patient ''patient_last_name'' JNull) (\<lambda>last_name.
     and_then (py_get patient ''patient_first_name'' JNull) (\<lambda>first_name.
     and_then (py_get data ''assessment'' (JList [])) (\<lambda>assessments.
       Inr (str_of last_name @ '', '' @ str_of first_name,
            (case assessments of JList xs \<Rightarrow> xs | x \<Rightarrow> [x]))))))))"

text \<open>
  \<^verbatim>\<open>_process_event\<close>. \<open>flow\<close> is \<^verbatim>\<open>_run_outbound_flow\<close>, the on-screen entry: it returns a
  boolean or raises, and does not touch the store. The callback gets the dictionary
  \<^verbatim>\<open>{'event_id', 'patient', 'success'}\<close>. Every \<^verbatim>\<open>_update_event_status\<close> commits on its own,
  so the result lists the store as it stands after each of these commits, in the order of
  the calls (the last one is the store the method leaves), and the dictionaries handed to
  the callback. The \<^verbatim>\<open>_processing\<close> flag and the overlay calls do not touch the store.
\<close>

definition process_event ::
  "(json \<Rightarrow> string) \<Rightarrow> (string \<Rightarrow> json list \<Rightarrow> exn + bool) \<Rightarrow> (json \<Rightarrow> exn option) option
     \<Rightarrow> database \<Rightarrow> event \<Rightarrow> timestamp \<Rightarrow> database list \<times> json list" where
  "process_event str_of flow cb db ev now =
     (let eid = event_id ev;
          db1 = update_event_status db eid worker_STATUS_PROCESSING now
      in case and_then (read_event str_of ev) (\<lambda>(patient_name, assessments).
                and_then (flow patient_name assessments) (\<lambda>success.
                  Inr (patient_name, success))) of
           Inl e \<Rightarrow> ([db1, update_event_status db1 eid STATUS_ERROR now], [])
         | Inr (patient_name, success) \<Rightarrow>
             if success
             then (let db2 = update_event_status db1 eid STATUS_DONE now;
                       info = JDict [(''event_id'', JNum eid), (''patient'', JStr patient_name),
                                     (''success'', JBool True)]
                   in case cb of
                        None \<Rightarrow> ([db1, db2], [])
                      | Some callback \<Rightarrow>
                          (case callback info of
                             None \<Rightarrow> ([db1, db2], [info])
                           | Some e \<Rightarrow>
                               ([db1, db2, update_event_status db2 eid STATUS_ERROR now],
                                [info])))
             else ([db1, update_event_status db1 eid STATUS_ERROR now], []))"


section \<open>The wait between two polls\<close>

text \<open>
  Time in milliseconds. A stop request at the instant \<open>stop\<close> clears \<^verbatim>\<open>_running\<close>, so the
  flag read at the instant \<open>t\<close> is \<open>t < stop\<close>. Each function gives the instant at which
  the loop, having begun its wait at \<open>t\<close>, is back at \<^verbatim>\<open>while self._running\<close>.

  The worker: \<^verbatim>\<open>for _ in range(int(self.poll_interval * 10))\<close>, leaving the loop when the
  flag is down and sleeping 0.1 s otherwise. The simulator: \<^verbatim>\<open>time.sleep(5)\<close>. The
  processor: \<^verbatim>\<open>time.sleep(self.poll_interval)\<close>, the interval in seconds.
\<close>

fun worker_wait :: "nat \<Rightarrow> nat \<Rightarrow> nat \<Rightarrow> nat" where
  "worker_wait 0 t stop = t"
| "worker_wait (Suc n) t stop = (if \<not> t < stop then t else worker_wait n (t + 100) stop)"

definition simulator_wait :: "nat \<Rightarrow> nat \<Rightarrow> nat" where
  "simulator_wait t stop = t + 5000"

definition processor_wait :: "nat \<Rightarrow> nat \<Rightarrow> nat \<Rightarrow> nat" where
  "processor_wait poll_interval t stop = t + 1000 * poll_interval"


section \<open>Example rows and auxiliary notions\<close>

text \<open>Rows and tables for the concrete runs below.\<close>

definition mk_event ::
  "int \<Rightarrow> timestamp \<Rightarrow> direction \<Rightarrow> cell option \<Rightarrow> int \<Rightarrow> int \<Rightarrow> event" where
  "mk_event i t d raw st n =
     \<lparr>event_id = i, received_at = t, direction = d, raw_data = raw, converted_at = None,
      converted_data = None, sent_at = None, response_data = None, status = st,
      kind = ''assessment_result'', updated_at = Some t, error_count = n\<rparr>"

definition conv_event :: "int \<Rightarrow> timestamp \<Rightarrow> timestamp \<Rightarrow> event" where
  "conv_event i t tc =
     \<lparr>event_id = i, received_at = t, direction = Inbound, raw_data = None,
      converted_at = Some tc, converted_data = Some (Dumps (JDict [(''k'', JNum 1)])),
      sent_at = None, response_data = None, status = 10,
      kind = ''patient_extraction'', updated_at = Some tc, error_count = 0\<rparr>"

definition mk_db :: "event list \<Rightarrow> database" where
  "mk_db rows = \<lparr>common_event = rows, common_eventerror = [],
                 event_seq = fold max (map event_id rows) 0, eventerror_seq = 0\<rparr>"

definition sample_payload :: json where
  "sample_payload =
     JDict [(''data'',
       JDict [(''patient'', JDict [(''patient_id'', JStr ''123''),
                                   (''patient_first_name'', JStr ''Jane''),
                                   (''patient_last_name'', JStr ''Doe'')]),
              (''assessment'', JList [JDict [(''assessment_name'', JStr ''PHQ-9''),
                                             (''total_score_value'', JStr ''7''),
                                             (''total_score_legend'', JStr ''Mild''),
                                             (''assessment_items'', JList [])]])])]"

text \<open>A \<open>str_of\<close> for the concrete runs; it is Python's \<^verbatim>\<open>str()\<close> on strings and on \<^verbatim>\<open>None\<close>.\<close>

fun sample_str :: "json \<Rightarrow> string" where
  "sample_str (JStr s) = s"
| "sample_str x = ''None''"

text \<open>No row with the id \<open>i\<close> is one the processor's poll selects.\<close>

definition not_pending :: "database \<Rightarrow> int \<Rightarrow> bool" where
  "not_pending db i =
     (\<forall>r \<in> set (common_event db). event_id r = i \<longrightarrow>
        \<not> (direction r = Outbound \<and> status r = processor_STATUS_OUTBOUND_READY))"

lemmas store_defs =
  update_rows_def rowcount_def get_event_def next_rowid_def mk_db_def mk_event_def

lemmas processor_defs =
  process_now_def get_pending_results_def order_by_def select_pending_def
  process_single_result_def process_assessment_result_def update_status_def
  increment_error_def processor_STATUS_OUTBOUND_READY_def processor_STATUS_PROCESSING_def
  processor_STATUS_COMPLETE_def MAX_ERRORS_def


section \<open>The store: missing rows and \<^verbatim>\<open>record_error\<close>\<close>

lemma update_rows_absent:
  "eid \<notin> event_id ` set (common_event db) \<Longrightarrow> update_rows eid f db = db"
proof -
  assume a: "eid \<notin> event_id ` set (common_event db)"
  have "map (\<lambda>r. if event_id r = eid then f r else r) (common_event db) = common_event db"
    using a by (intro map_idI) auto
  then show ?thesis by (simp add: update_rows_def)
qed

lemma rowcount_absent:
  "eid \<notin> event_id ` set (common_event db) \<Longrightarrow> rowcount eid db = 0"
  by (auto simp: rowcount_def filter_empty_conv)

text \<open>
  C5. Every call of \<^verbatim>\<open>MHTDatabase.record_error\<close> raises \<^verbatim>\<open>AttributeError\<close> (the enum has
  no member \<^verbatim>\<open>ERROR\<close>) before the commit: no error-record id is returned, and the event
  table, the error table and the rowid counters are what they were.
\<close>

theorem C5_record_error_raises:
  "record_error db eid error_message now = (Inl (AttributeError ''ERROR''), db)"
  by (simp add: record_error_def EventStatus_def EventStatus_members_def Let_def)

text \<open>
  C7. Called with an id that no row of the store has, \<^verbatim>\<open>update_event_converted\<close>,
  \<^verbatim>\<open>update_event_sent\<close> and the processor's \<^verbatim>\<open>_update_status\<close> return \<open>False\<close> (no branch
  of them raises) and leave the whole database as it was.
\<close>

theorem C7_missing_id_is_no_op:
  assumes "eid \<notin> event_id ` set (common_event db)"
  shows "update_event_converted db eid converted now = (False, db)
       \<and> update_event_sent db eid response now = (False, db)
       \<and> update_status db eid st conv resp now = (False, db)"
  using assms
  by (simp add: update_event_converted_def update_event_sent_def update_status_def
      update_rows_absent rowcount_absent split: option.split)

theorem C7_missing_id_is_no_op_witness:
  "(7::int) \<notin> event_id ` set (common_event (mk_db [mk_event 1 ''t0'' Outbound None 10 0]))
     \<and> update_event_converted (mk_db [mk_event 1 ''t0'' Outbound None 10 0]) 7 (JDict []) ''t1''
         = (False, mk_db [mk_event 1 ''t0'' Outbound None 10 0])
     \<and> update_event_sent (mk_db [mk_event 1 ''t0'' Outbound None 10 0]) 7 (JDict []) ''t1''
         = (False, mk_db [mk_event 1 ''t0'' Outbound None 10 0])
     \<and> update_status (mk_db [mk_event 1 ''t0'' Outbound None 10 0]) 7 50 None None ''t1''
         = (False, mk_db [mk_event 1 ''t0'' Outbound None 10 0])"
  using C7_missing_id_is_no_op[of 7 "mk_db [mk_event 1 ''t0'' Outbound None 10 0]"
      "JDict []" "''t1''" "JDict []" 50 None None]
  by (simp add: mk_db_def mk_event_def)


section \<open>The error count\<close>

lemma find_update_rows:
  "(\<And>r. event_id (f r) = event_id r) \<Longrightarrow>
   find (\<lambda>r. event_id r = eid) (map (\<lambda>r. if event_id r = eid then f r else r) rows)
     = map_option f (find (\<lambda>r. event_id r = eid) rows)"
  by (induction rows) auto

lemma get_event_update_rows:
  "(\<And>r. event_id (f r) = event_id r) \<Longrightarrow>
   get_event (update_rows eid f db) eid = map_option f (get_event db eid)"
  by (simp add: get_event_def update_rows_def find_update_rows)

lemma increment_error_step:
  assumes "get_event db eid = Some r"
  shows "fst (increment_error db eid cs m t) = (error_count r + 1 \<ge> MAX_ERRORS)"
    and "get_event (snd (increment_error db eid cs m t)) eid =
           Some (if error_count r + 1 \<ge> MAX_ERRORS
                 then r\<lparr>status := - \<bar>cs\<bar>, error_count := error_count r + 1,
                        updated_at := Some t\<rparr>
                 else r\<lparr>error_count := error_count r + 1, updated_at := Some t\<rparr>)"
  using assms
  by (auto simp: increment_error_def Let_def get_event_update_rows get_event_def[symmetric])

text \<open>
  C3, as the code has it. For an event with status \<open>S\<close> and error count 0, four consecutive
  calls of \<^verbatim>\<open>_increment_error\<close> return \<open>False\<close>, \<open>False\<close>, \<open>False\<close>, \<open>True\<close>; after the third
  the status is still \<open>S\<close> and the count is 3; after the fourth the count is 4 and the
  status is \<open>- |c|\<close> for the \<^verbatim>\<open>current_status\<close> argument \<open>c\<close> of that call, whatever the status
  of the row was. The arguments of the four calls are arbitrary.
\<close>

theorem C3_four_failures_escalate:
  assumes "get_event db eid = Some r" and "status r = S" and "error_count r = 0"
  shows "(let (b1, db1) = increment_error db eid c1 m1 t1;
              (b2, db2) = increment_error db1 eid c2 m2 t2;
              (b3, db3) = increment_error db2 eid c3 m3 t3;
              (b4, db4) = increment_error db3 eid c4 m4 t4
          in [b1, b2, b3, b4] = [False, False, False, True]
             \<and> map_option status (get_event db3 eid) = Some S
             \<and> map_option error_count (get_event db3 eid) = Some 3
             \<and> map_option status (get_event db4 eid) = Some (- \<bar>c4\<bar>)
             \<and> map_option error_count (get_event db4 eid) = Some 4)"
proof -
  define db1 where "db1 = snd (increment_error db eid c1 m1 t1)"
  define db2 where "db2 = snd (increment_error db1 eid c2 m2 t2)"
  define db3 where "db3 = snd (increment_error db2 eid c3 m3 t3)"
  define db4 where "db4 = snd (increment_error db3 eid c4 m4 t4)"
  define r1 where "r1 = r\<lparr>error_count := 1, updated_at := Some t1\<rparr>"
  define r2 where "r2 = r1\<lparr>error_count := 2, updated_at := Some t2\<rparr>"
  define r3 where "r3 = r2\<lparr>error_count := 3, updated_at := Some t3\<rparr>"
  define r4 where "r4 = r3\<lparr>status := - \<bar>c4\<bar>, error_count := 4, updated_at := Some t4\<rparr>"
  have g1: "get_event db1 eid = Some r1" and b1: "\<not> fst (increment_error db eid c1 m1 t1)"
    using increment_error_step[OF assms(1), of c1 m1 t1] assms(3)
    by (simp_all add: db1_def r1_def MAX_ERRORS_def)
  have g2: "get_event db2 eid = Some r2" and b2: "\<not> fst (increment_error db1 eid c2 m2 t2)"
    using increment_error_step[OF g1, of c2 m2 t2]
    by (simp_all add: db2_def r2_def r1_def MAX_ERRORS_def)
  have g3: "get_event db3 eid = Some r3" and b3: "\<not> fst (increment_error db2 eid c3 m3 t3)"
    using increment_error_step[OF g2, of c3 m3 t3]
    by (simp_all add: db3_def r3_def r2_def MAX_ERRORS_def)
  have g4: "get_event db4 eid = Some r4" and b4: "fst (increment_error db3 eid c4 m4 t4)"
    using increment_error_step[OF g3, of c4 m4 t4]
    by (simp_all add: db4_def r4_def r3_def MAX_ERRORS_def)
  have s3: "status r3 = S" "error_count r3 = 3"
    using assms(2) by (simp_all add: r3_def r2_def r1_def)
  have s4: "status r4 = - \<bar>c4\<bar>" "error_count r4 = 4"
    by (simp_all add: r4_def)
  show ?thesis
    using g3 g4 b1 b2 b3 b4 s3 s4
    by (simp add: split_beta Let_def db1_def[symmetric] db2_def[symmetric]
        db3_def[symmetric] db4_def[symmetric])
qed

text \<open>
  The calls as \<^verbatim>\<open>_process_single_result\<close> makes them: the row is at 50 (PROCESSING) and the
  argument is the constant \<^verbatim>\<open>STATUS_OUTBOUND_READY\<close>, 10.
\<close>

theorem C3_four_failures_escalate_witness:
  "(let db = mk_db [mk_event 1 ''t0'' Outbound None 50 0];
        (b1, db1) = increment_error db 1 processor_STATUS_OUTBOUND_READY ''e'' ''t1'';
        (b2, db2) = increment_error db1 1 processor_STATUS_OUTBOUND_READY ''e'' ''t2'';
        (b3, db3) = increment_error db2 1 processor_STATUS_OUTBOUND_READY ''e'' ''t3'';
        (b4, db4) = increment_error db3 1 processor_STATUS_OUTBOUND_READY ''e'' ''t4''
    in [b1, b2, b3, b4] = [False, False, False, True]
       \<and> map_option status (get_event db3 1) = Some 50
       \<and> map_option error_count (get_event db3 1) = Some 3
       \<and> map_option status (get_event db4 1) = Some (- 10)
       \<and> map_option error_count (get_event db4 1) = Some 4)"
  using C3_four_failures_escalate[of "mk_db [mk_event 1 ''t0'' Outbound None 50 0]" 1
      "mk_event 1 ''t0'' Outbound None 50 0" 50
      processor_STATUS_OUTBOUND_READY "''e''" "''t1''"
      processor_STATUS_OUTBOUND_READY "''e''" "''t2''"
      processor_STATUS_OUTBOUND_READY "''e''" "''t3''"
      processor_STATUS_OUTBOUND_READY "''e''" "''t4''"]
  by (simp add: store_defs processor_STATUS_OUTBOUND_READY_def)

text \<open>
  As the claim words it (final status \<open>- S\<close> for the status \<open>S\<close> of the event), C3 fails at
  the processor's own call: an event at 50, failed four times with the argument 10 that
  \<^verbatim>\<open>_process_single_result\<close> passes, ends at \<open>- 10\<close>, not at \<open>- 50\<close>.
\<close>

theorem C3_processing_row_counterexample:
  "\<not> (let db = mk_db [mk_event 1 ''t0'' Outbound None 50 0];
        (b1, db1) = increment_error db 1 processor_STATUS_OUTBOUND_READY ''e'' ''t1'';
        (b2, db2) = increment_error db1 1 processor_STATUS_OUTBOUND_READY ''e'' ''t2'';
        (b3, db3) = increment_error db2 1 processor_STATUS_OUTBOUND_READY ''e'' ''t3'';
        (b4, db4) = increment_error db3 1 processor_STATUS_OUTBOUND_READY ''e'' ''t4''
    in map_option status (get_event db4 1) = Some (- 50))"
  by (simp add: store_defs increment_error_def MAX_ERRORS_def
      processor_STATUS_OUTBOUND_READY_def)

text \<open>
  C4, evaluated. \<^verbatim>\<open>_increment_error\<close> never writes the error table; on an event with a
  malformed payload one call leaves error count 1 and no error record for the event.
\<close>

theorem C4_increment_error_adds_no_record:
  "common_eventerror (snd (increment_error db eid current_status error_message now))
     = common_eventerror db
   \<and> (let db0 = mk_db [mk_event 1 ''t0'' Outbound (Some (Unparsable ''oops'')) 10 0];
           db1 = snd (increment_error db0 1 10 ''boom'' ''t1'')
       in map_option error_count (get_event db1 1) = Some 1
          \<and> filter (\<lambda>e. error_event_id e = 1) (common_eventerror db1) = [])"
  by (simp add: increment_error_def Let_def update_rows_def MAX_ERRORS_def
        get_event_def mk_db_def mk_event_def split: option.split)


section \<open>The order of the queries\<close>

lemma set_order_by: "set (order_by col rows) = set rows"
  by (simp add: order_by_def)

lemma sorted_order_by: "sorted (map col (order_by col rows))"
  by (simp add: order_by_def)

text \<open>
  C6, as the code has it. The processor's pending query and \<^verbatim>\<open>get_pending_events\<close> return
  the matching rows in ascending order of \<^verbatim>\<open>received_at\<close>; the worker's ready query returns
  them in ascending order of \<^verbatim>\<open>id\<close>; \<^verbatim>\<open>get_converted_events\<close> in ascending order of
  \<^verbatim>\<open>converted_at\<close>. Each returns exactly the rows its WHERE clause matches.
\<close>

theorem C6_query_orders:
  "sorted (map sel_received_at (get_pending_results db))
   \<and> set (get_pending_results db) =
       select_pending ` {r \<in> set (common_event db).
                           direction r = Outbound \<and> status r = processor_STATUS_OUTBOUND_READY}
   \<and> sorted (map received_at (get_pending_events db))
   \<and> set (get_pending_events db) = {r \<in> set (common_event db). status r = PENDING}
   \<and> sorted (map event_id (get_ready_outbound_events db))
   \<and> set (get_ready_outbound_events db) =
       {r \<in> set (common_event db). direction r = Outbound \<and> status r = STATUS_READY}
   \<and> sorted (map converted_at (get_converted_events db))
   \<and> set (get_converted_events db) = {r \<in> set (common_event db). status r = CONVERTED}"
proof -
  have "map sel_received_at (map select_pending rows) = map received_at rows" for rows
    by (simp add: select_pending_def comp_def)
  then have "sorted (map sel_received_at (get_pending_results db))"
    by (simp only: get_pending_results_def sorted_order_by)
  moreover have "set (get_pending_results db) =
       select_pending ` {r \<in> set (common_event db).
                           direction r = Outbound \<and> status r = processor_STATUS_OUTBOUND_READY}"
    by (simp add: get_pending_results_def set_order_by)
  ultimately show ?thesis
    by (simp add: get_pending_events_def get_ready_outbound_events_def
        get_converted_events_def set_order_by sorted_order_by)
qed

text \<open>
  Three events received at \<open>t1 < t2 < t3\<close> with ids 3, 1, 2: the processor's query returns
  them in the order of receipt.
\<close>

theorem C6_query_orders_witness:
  "map sel_id (get_pending_results
      (mk_db [mk_event 1 ''t2'' Outbound None 10 0, mk_event 2 ''t3'' Outbound None 10 0,
              mk_event 3 ''t1'' Outbound None 10 0])) = [3, 1, 2]
   \<and> sorted (map sel_received_at (get_pending_results
      (mk_db [mk_event 1 ''t2'' Outbound None 10 0, mk_event 2 ''t3'' Outbound None 10 0,
              mk_event 3 ''t1'' Outbound None 10 0])))"
  using C6_query_orders[of "mk_db [mk_event 1 ''t2'' Outbound None 10 0,
      mk_event 2 ''t3'' Outbound None 10 0, mk_event 3 ''t1'' Outbound None 10 0]"]
  by (simp add: get_pending_results_def order_by_def select_pending_def mk_db_def
      mk_event_def processor_STATUS_OUTBOUND_READY_def)

text \<open>
  As the claim words it, C6 fails: \<^verbatim>\<open>get_converted_events\<close> returns an event received and
  converted later before one received earlier and converted last, and the worker's query
  returns id 1 before id 2 though id 2 was received first.
\<close>

theorem C6_received_order_counterexample:
  "\<not> sorted (map received_at
        (get_converted_events (mk_db [conv_event 1 ''t1'' ''t4'', conv_event 2 ''t2'' ''t3''])))
   \<and> \<not> sorted (map received_at
        (get_ready_outbound_events
           (mk_db [mk_event 1 ''t2'' Outbound None 100 0,
                   mk_event 2 ''t1'' Outbound None 100 0])))"
  by (simp add: get_converted_events_def get_ready_outbound_events_def order_by_def
      mk_db_def mk_event_def conv_event_def CONVERTED_def STATUS_READY_def)


section \<open>The simulator's outbound event\<close>

text \<open>
  C1, evaluated. \<^verbatim>\<open>_create_outbound_event\<close> appends one outbound row with status 100; the
  processor's pending query returns what it returned before, and the new row is one the
  outbound worker's query returns.
\<close>

theorem C1_outbound_event_created_at_100:
  "(let (new_id, db') = create_outbound_event db inbound_event_id mock_response now
    in common_event db' =
         common_event db @
           [\<lparr>event_id = new_id, received_at = now, direction = Outbound,
             raw_data = Some (Dumps mock_response), converted_at = None,
             converted_data = None, sent_at = None, response_data = None,
             status = 100, kind = ''assessment_result'',
             updated_at = Some now, error_count = 0\<rparr>]
       \<and> get_pending_results db' = get_pending_results db
       \<and> set (get_ready_outbound_events db') =
           insert (last (common_event db')) (set (get_ready_outbound_events db)))"
  by (auto simp: create_outbound_event_def Let_def get_pending_results_def
      get_ready_outbound_events_def set_order_by
      simulator_STATUS_OUTBOUND_READY_def processor_STATUS_OUTBOUND_READY_def STATUS_READY_def)


section \<open>The result processor's poll\<close>

lemma not_pending_update_other:
  assumes "\<And>r. status (f r) \<noteq> processor_STATUS_OUTBOUND_READY \<or>
               (status (f r) = status r \<and> direction (f r) = direction r
                  \<and> event_id (f r) = event_id r)"
    and "not_pending db j"
  shows "not_pending (update_rows i f db) j"
  unfolding not_pending_def update_rows_def
proof (intro ballI impI)
  fix r
  assume r: "r \<in> set (common_event
        (db\<lparr>common_event := map (\<lambda>r. if event_id r = i then f r else r) (common_event db)\<rparr>))"
    and id: "event_id r = j"
  then obtain r0 where r0: "r0 \<in> set (common_event db)"
    and eq: "r = (if event_id r0 = i then f r0 else r0)"
    by auto
  show "\<not> (direction r = Outbound \<and> status r = processor_STATUS_OUTBOUND_READY)"
  proof (cases "event_id r0 = i")
    case False
    then show ?thesis using eq r0 id assms(2) by (auto simp: not_pending_def)
  next
    case True
    then have rf: "r = f r0" using eq by simp
    from assms(1)[of r0] show ?thesis
    proof
      assume "status (f r0) \<noteq> processor_STATUS_OUTBOUND_READY"
      then show ?thesis using rf by simp
    next
      assume "status (f r0) = status r0 \<and> direction (f r0) = direction r0
                \<and> event_id (f r0) = event_id r0"
      then show ?thesis using rf r0 id assms(2) by (auto simp: not_pending_def)
    qed
  qed
qed

lemma not_pending_update_same:
  assumes "\<And>r. status (f r) \<noteq> processor_STATUS_OUTBOUND_READY"
  shows "not_pending (update_rows i f db) i"
  using assms by (auto simp: not_pending_def update_rows_def)

lemma update_status_not_pending:
  assumes "st \<noteq> processor_STATUS_OUTBOUND_READY"
  shows "not_pending (snd (update_status db i st c rsp now)) i"
    and "not_pending db j \<Longrightarrow> not_pending (snd (update_status db i st c rsp now)) j"
  using assms
  by (auto simp: update_status_def split: option.split
      intro!: not_pending_update_same not_pending_update_other)

lemma increment_error_not_pending:
  "not_pending db j \<Longrightarrow>
   not_pending (snd (increment_error db i processor_STATUS_OUTBOUND_READY m now)) j"
  by (auto simp: increment_error_def Let_def processor_STATUS_OUTBOUND_READY_def
      split: option.split intro!: not_pending_update_other)

lemma processing_ne_ready: "processor_STATUS_PROCESSING \<noteq> processor_STATUS_OUTBOUND_READY"
  by (simp add: processor_STATUS_PROCESSING_def processor_STATUS_OUTBOUND_READY_def)

lemma complete_ne_ready: "processor_STATUS_COMPLETE \<noteq> processor_STATUS_OUTBOUND_READY"
  by (simp add: processor_STATUS_COMPLETE_def processor_STATUS_OUTBOUND_READY_def)

lemma process_single_result_keeps:
  assumes "not_pending
             (snd (update_status db (sel_id ev) processor_STATUS_PROCESSING None None now)) j"
  shows "not_pending (fst (snd (process_single_result str_of cb db ev now))) j"
  using assms
  by (auto simp: process_single_result_def Let_def split: sum.split option.split
      intro!: increment_error_not_pending update_status_not_pending(2)[OF complete_ne_ready])

lemma process_single_result_not_pending:
  shows "not_pending (fst (snd (process_single_result str_of cb db ev now))) (sel_id ev)"
    and "not_pending db j \<Longrightarrow>
         not_pending (fst (snd (process_single_result str_of cb db ev now))) j"
  by (auto intro!: process_single_result_keeps update_status_not_pending[OF processing_ne_ready])

lemma process_each_not_pending:
  "not_pending db j \<or> j \<in> sel_id ` set evs \<Longrightarrow>
   not_pending (fst (snd (process_each str_of cb db evs now))) j"
proof (induction evs arbitrary: db)
  case Nil
  then show ?case by simp
next
  case (Cons ev evs)
  obtain ok db1 out1 where p: "process_single_result str_of cb db ev now = (ok, db1, out1)"
    by (cases "process_single_result str_of cb db ev now") auto
  have "not_pending db1 j \<or> j \<in> sel_id ` set evs"
    using Cons.prems p
      process_single_result_not_pending(1)[where str_of=str_of and cb=cb
        and db=db and ev=ev and now=now]
      process_single_result_not_pending(2)[where str_of=str_of and cb=cb
        and db=db and ev=ev and now=now and j=j]
    by auto
  from Cons.IH[OF this] show ?case
    by (auto simp: p split: prod.split)
qed

lemma get_pending_results_covers:
  "not_pending db j \<or> j \<in> sel_id ` set (get_pending_results db)"
proof (cases "not_pending db j")
  case True
  then show ?thesis by simp
next
  case False
  then obtain r where "r \<in> set (common_event db)" "event_id r = j"
    "direction r = Outbound" "status r = processor_STATUS_OUTBOUND_READY"
    by (auto simp: not_pending_def)
  then have "select_pending r \<in> set (get_pending_results db)"
    by (simp add: get_pending_results_def set_order_by)
  moreover have "sel_id (select_pending r) = j"
    using \<open>event_id r = j\<close> by (simp add: select_pending_def)
  ultimately show ?thesis by force
qed

lemma no_pending_results:
  assumes "\<And>j. not_pending db j"
  shows "get_pending_results db = []"
proof -
  have "filter (\<lambda>r. direction r = Outbound \<and> status r = processor_STATUS_OUTBOUND_READY)
          (common_event db) = []"
    using assms by (auto simp: not_pending_def filter_empty_conv)
  then show ?thesis by (simp add: get_pending_results_def order_by_def)
qed

lemma process_now_drains:
  "get_pending_results (fst (snd (process_now str_of cb db now))) = []"
  by (rule no_pending_results)
    (simp add: process_now_def process_each_not_pending get_pending_results_covers)

text \<open>
  C9. After one \<^verbatim>\<open>process_now()\<close> no outbound event has status 10, so a second call on the
  database the first one left (nothing new arrived) fetches no pending event, returns 0,
  hands no summary to the callback and leaves the database, the error table included,
  as it was. This holds for every callback, raising or not.
\<close>

theorem C9_process_now_twice:
  "(let (n1, db1, out1) = process_now str_of cb db t1;
        (n2, db2, out2) = process_now str_of cb db1 t2
    in get_pending_results db1 = [] \<and> n2 = 0 \<and> db2 = db1 \<and> out2 = []
       \<and> common_eventerror db2 = common_eventerror db1)"
proof -
  obtain n1 db1 out1 where p: "process_now str_of cb db t1 = (n1, db1, out1)"
    by (cases "process_now str_of cb db t1") auto
  have e: "get_pending_results db1 = []"
    using process_now_drains[of str_of cb db t1] by (simp add: p)
  then have "process_now str_of cb db1 t2 = (0, db1, [])"
    by (simp add: process_now_def)
  then show ?thesis using e by (simp add: p)
qed

theorem C9_process_now_twice_witness:
  "(let db = mk_db [mk_event 1 ''t0'' Outbound (Some (Dumps sample_payload)) 10 0,
                    mk_event 2 ''t0'' Outbound (Some (Unparsable ''oops'')) 10 0];
        (n1, db1, out1) = process_now sample_str None db ''t1'';
        (n2, db2, out2) = process_now sample_str None db1 ''t2''
    in n1 = 1 \<and> map status (common_event db1) = [100, 50]
       \<and> get_pending_results db1 = [] \<and> n2 = 0 \<and> db2 = db1 \<and> out2 = []
       \<and> common_eventerror db2 = common_eventerror db1)"
  using C9_process_now_twice[of sample_str None
      "mk_db [mk_event 1 ''t0'' Outbound (Some (Dumps sample_payload)) 10 0,
              mk_event 2 ''t0'' Outbound (Some (Unparsable ''oops'')) 10 0]" "''t1''" "''t2''"]
  by (simp add: processor_defs store_defs Let_def sample_payload_def assessment_summary_def
      py_strip_def is_space_def)

text \<open>
  C2, evaluated. An outbound event at status 10 whose payload does not parse: the first
  poll sets it to 50, the parse raises, the error count becomes 1 and the status stays 50.
  No later poll selects it: the second poll processes nothing, and the error count stays 1,
  below the cap of 4.
\<close>

theorem C2_failed_event_is_not_retried:
  "(let db0 = mk_db [mk_event 1 ''t0'' Outbound (Some (Unparsable ''oops'')) 10 0];
        (n1, db1, out1) = process_now str_of cb db0 ''t1'';
        (n2, db2, out2) = process_now str_of cb db1 ''t2''
    in n1 = 0 \<and> map_option status (get_event db1 1) = Some 50
       \<and> map_option error_count (get_event db1 1) = Some 1
       \<and> get_pending_results db1 = []
       \<and> n2 = 0 \<and> db2 = db1 \<and> map_option error_count (get_event db2 1) = Some 1)"
  by (simp add: processor_defs store_defs Let_def)


section \<open>The outbound worker's delivery\<close>

lemma read_sample:
  "read_event sample_str (mk_event 1 ''t0'' Outbound (Some (Dumps sample_payload)) 100 0)
     = Inr (''Doe, Jane'', [JDict [(''assessment_name'', JStr ''PHQ-9''),
                                   (''total_score_value'', JStr ''7''),
                                   (''total_score_legend'', JStr ''Mild''),
                                   (''assessment_items'', JList [])]])"
  by (simp add: read_event_def mk_event_def sample_payload_def)

lemma get_event_update_event_status:
  "get_event (update_event_status d eid st now) eid =
     map_option (\<lambda>r. r\<lparr>status := st, updated_at := Some now\<rparr>) (get_event d eid)"
  by (simp add: update_event_status_def get_event_update_rows)

lemma status_after_update_event_status:
  "get_event d eid \<noteq> None \<Longrightarrow>
   map_option status (get_event (update_event_status d eid st now) eid) = Some st"
  by (auto simp: get_event_update_event_status)

lemma update_event_status_keeps_row:
  "get_event d eid \<noteq> None \<Longrightarrow> get_event (update_event_status d eid st now) eid \<noteq> None"
  by (auto simp: get_event_update_event_status)

text \<open>
  C8. The stores \<^verbatim>\<open>_process_event\<close> commits, in order. The first is always the store with
  the event at PROCESSING (50). When the document is readable and the flow returns \<open>True\<close>,
  the second is the store with the event at DONE (200), whatever the callback does; it is
  the last one unless a registered callback raises, and then ERROR (- 100) is written
  third. When the flow returns \<open>False\<close> or raises, or the document is not readable, the
  second and last is the store with the event at ERROR. For an event that is in the
  store these writes give the row the statuses 50, 200 and - 100. A row at ERROR is in the
  result of no later ready query of the worker, nor of the processor's pending query.
\<close>

theorem C8_delivery_outcome:
  "(let eid = event_id ev;
        history = fst (process_event str_of flow cb db ev now);
        db1 = update_event_status db eid worker_STATUS_PROCESSING now;
        db2 = update_event_status db1 eid STATUS_DONE now;
        db3 = update_event_status db2 eid STATUS_ERROR now;
        dbE = update_event_status db1 eid STATUS_ERROR now;
        info = (\<lambda>name. JDict [(''event_id'', JNum eid), (''patient'', JStr name),
                               (''success'', JBool True)])
    in take 1 history = [db1]
     \<and> (\<forall>name assessments.
          read_event str_of ev = Inr (name, assessments) \<and> flow name assessments = Inr True
          \<longrightarrow> take 2 history = [db1, db2]
              \<and> history = (case cb of
                             None \<Rightarrow> [db1, db2]
                           | Some callback \<Rightarrow>
                               (case callback (info name) of
                                  None \<Rightarrow> [db1, db2]
                                | Some e \<Rightarrow> [db1, db2, db3])))
     \<and> (\<forall>name assessments.
          read_event str_of ev = Inr (name, assessments) \<and> flow name assessments \<noteq> Inr True
          \<longrightarrow> history = [db1, dbE])
     \<and> (\<forall>e. read_event str_of ev = Inl e \<longrightarrow> history = [db1, dbE])
     \<and> (get_event db eid \<noteq> None
          \<longrightarrow> map_option status (get_event db1 eid) = Some worker_STATUS_PROCESSING
              \<and> map_option status (get_event db2 eid) = Some STATUS_DONE
              \<and> map_option status (get_event db3 eid) = Some STATUS_ERROR
              \<and> map_option status (get_event dbE eid) = Some STATUS_ERROR)
     \<and> (\<forall>db' (r :: event). status r = STATUS_ERROR
          \<longrightarrow> r \<notin> set (get_ready_outbound_events db')
              \<and> select_pending r \<notin> set (get_pending_results db')))"
proof -
  define eid where "eid = event_id ev"
  define history where "history = fst (process_event str_of flow cb db ev now)"
  define db1 where "db1 = update_event_status db eid worker_STATUS_PROCESSING now"
  define db2 where "db2 = update_event_status db1 eid STATUS_DONE now"
  define db3 where "db3 = update_event_status db2 eid STATUS_ERROR now"
  define dbE where "dbE = update_event_status db1 eid STATUS_ERROR now"
  define info where "info = (\<lambda>name. JDict [(''event_id'', JNum eid), (''patient'', JStr name),
                               (''success'', JBool True)])"
  note defs = eid_def history_def db1_def db2_def db3_def dbE_def info_def
  have first: "take 1 history = [db1]"
    by (simp add: defs process_event_def Let_def split: sum.split option.split prod.split)
  have done_case: "take 2 history = [db1, db2]
              \<and> history = (case cb of
                             None \<Rightarrow> [db1, db2]
                           | Some callback \<Rightarrow>
                               (case callback (info name) of
                                  None \<Rightarrow> [db1, db2]
                                | Some e \<Rightarrow> [db1, db2, db3]))"
    if "read_event str_of ev = Inr (name, assessments) \<and> flow name assessments = Inr True"
    for name assessments
    using that
    by (simp add: defs process_event_def Let_def split: option.split)
  have failed_case: "history = [db1, dbE]"
    if a: "read_event str_of ev = Inr (name, assessments)
             \<and> flow name assessments \<noteq> Inr True"
    for name assessments
  proof (cases "flow name assessments")
    case (Inl e)
    then show ?thesis using a by (simp add: defs process_event_def Let_def)
  next
    case (Inr b)
    then have "b = False" using a by simp
    then show ?thesis using a Inr by (simp add: defs process_event_def Let_def)
  qed
  have unreadable_case: "history = [db1, dbE]" if "read_event str_of ev = Inl e" for e
    using that by (simp add: defs process_event_def Let_def)
  have statuses: "map_option status (get_event db1 eid) = Some worker_STATUS_PROCESSING
              \<and> map_option status (get_event db2 eid) = Some STATUS_DONE
              \<and> map_option status (get_event db3 eid) = Some STATUS_ERROR
              \<and> map_option status (get_event dbE eid) = Some STATUS_ERROR"
    if ex: "get_event db eid \<noteq> None"
  proof -
    have e1: "get_event db1 eid \<noteq> None"
      unfolding db1_def by (rule update_event_status_keeps_row[OF ex])
    have e2: "get_event db2 eid \<noteq> None"
      unfolding db2_def by (rule update_event_status_keeps_row[OF e1])
    show ?thesis
      using status_after_update_event_status[OF ex, of worker_STATUS_PROCESSING now]
        status_after_update_event_status[OF e1, of STATUS_DONE now]
        status_after_update_event_status[OF e2, of STATUS_ERROR now]
        status_after_update_event_status[OF e1, of STATUS_ERROR now]
      by (simp add: db1_def db2_def db3_def dbE_def)
  qed
  have never: "r \<notin> set (get_ready_outbound_events db')
              \<and> select_pending r \<notin> set (get_pending_results db')"
    if st: "status r = STATUS_ERROR" for db' and r :: event
  proof -
    have "r \<notin> set (get_ready_outbound_events db')"
      using st
      by (simp add: get_ready_outbound_events_def set_order_by STATUS_ERROR_def
          STATUS_READY_def)
    moreover have "sel_status (select_pending r) \<noteq> processor_STATUS_OUTBOUND_READY"
      using st
      by (simp add: select_pending_def STATUS_ERROR_def processor_STATUS_OUTBOUND_READY_def)
    moreover have "sel_status x = processor_STATUS_OUTBOUND_READY"
      if "x \<in> set (get_pending_results db')" for x
      using that by (auto simp: get_pending_results_def set_order_by select_pending_def)
    ultimately show ?thesis by blast
  qed
  show ?thesis
    unfolding Let_def
    using first done_case failed_case unreadable_case statuses never
    unfolding defs
    by blast
qed

text \<open>
  One event with a readable document, delivered five times from the same store: the flow
  succeeds with no callback, with a callback that returns and with one that raises; the
  flow returns \<open>False\<close>; the flow raises. The status of the row after each commit.
\<close>

theorem C8_delivery_outcome_witness:
  "(let ev = mk_event 1 ''t0'' Outbound (Some (Dumps sample_payload)) 100 0;
        db = mk_db [ev];
        statuses = (\<lambda>flow cb. map (\<lambda>d. map status (common_event d))
                      (fst (process_event sample_str flow cb db ev ''t1'')))
    in statuses (\<lambda>n a. Inr True) None = [[50], [200]]
       \<and> statuses (\<lambda>n a. Inr True) (Some (\<lambda>i. None)) = [[50], [200]]
       \<and> statuses (\<lambda>n a. Inr True) (Some (\<lambda>i. Some (Raised ''x''))) = [[50], [200], [- 100]]
       \<and> statuses (\<lambda>n a. Inr False) None = [[50], [- 100]]
       \<and> statuses (\<lambda>n a. Inl (Raised ''x'')) None = [[50], [- 100]]
       \<and> get_ready_outbound_events db = [ev]
       \<and> get_ready_outbound_events
           (last (fst (process_event sample_str (\<lambda>n a. Inr False) None db ev ''t1''))) = [])"
  using
    C8_delivery_outcome[of
          "mk_event 1 ''t0'' Outbound (Some (Dumps sample_payload)) 100 0"
          sample_str "\<lambda>n a. Inr True" None
          "mk_db [mk_event 1 ''t0'' Outbound (Some (Dumps sample_payload)) 100 0]" "''t1''"]
    C8_delivery_outcome[of
          "mk_event 1 ''t0'' Outbound (Some (Dumps sample_payload)) 100 0"
          sample_str "\<lambda>n a. Inr True" "Some (\<lambda>i. None)"
          "mk_db [mk_event 1 ''t0'' Outbound (Some (Dumps sample_payload)) 100 0]" "''t1''"]
    C8_delivery_outcome[of
          "mk_event 1 ''t0'' Outbound (Some (Dumps sample_payload)) 100 0"
          sample_str "\<lambda>n a. Inr True" "Some (\<lambda>i. Some (Raised ''x''))"
          "mk_db [mk_event 1 ''t0'' Outbound (Some (Dumps sample_payload)) 100 0]" "''t1''"]
    C8_delivery_outcome[of
          "mk_event 1 ''t0'' Outbound (Some (Dumps sample_payload)) 100 0"
          sample_str "\<lambda>n a. Inr False" None
          "mk_db [mk_event 1 ''t0'' Outbound (Some (Dumps sample_payload)) 100 0]" "''t1''"]
    C8_delivery_outcome[of
          "mk_event 1 ''t0'' Outbound (Some (Dumps sample_payload)) 100 0"
          sample_str "\<lambda>n a. Inl (Raised ''x'')" None
          "mk_db [mk_event 1 ''t0'' Outbound (Some (Dumps sample_payload)) 100 0]" "''t1''"]
  by (simp add: read_sample Let_def update_event_status_def update_rows_def
      get_ready_outbound_events_def order_by_def
      worker_STATUS_PROCESSING_def STATUS_DONE_def STATUS_ERROR_def STATUS_READY_def
      mk_db_def, simp add: mk_event_def)


section \<open>Stopping a loop during its wait\<close>

lemma worker_wait_stopped: "stop \<le> t \<Longrightarrow> worker_wait n t stop = t"
  by (cases n) auto

text \<open>
  The worker reads the flag every 100 ms: a stop requested during the wait is seen less
  than 100 ms later.
\<close>

lemma worker_wait_bounds:
  "t \<le> stop \<Longrightarrow> stop \<le> t + 100 * n \<Longrightarrow>
     stop \<le> worker_wait n t stop \<and> worker_wait n t stop < stop + 100"
proof (induction n t stop rule: worker_wait.induct)
  case (1 t stop)
  then show ?case by simp
next
  case (2 n t stop)
  show ?case
  proof (cases "t + 100 \<le> stop")
    case True
    then show ?thesis using 2 by auto
  next
    case False
    then have "worker_wait n (t + 100) stop = t + 100"
      by (simp add: worker_wait_stopped)
    then show ?thesis using False 2 by auto
  qed
qed

lemma worker_wait_bounds_witness:
  "(0::nat) \<le> 1 \<and> (1::nat) \<le> 0 + 100 * 50
     \<and> 1 \<le> worker_wait 50 0 1 \<and> worker_wait 50 0 1 < 1 + 100"
  using worker_wait_bounds[of 0 1 50] by simp

text \<open>
  C10, evaluated. A stop requested 1 ms into the wait: the worker (poll interval 5 s, 50
  rounds) is back at its loop head at 100 ms; the simulator only at 5000 ms; the processor
  with its default interval of 10 s only at 10000 ms.
\<close>

theorem C10_stop_during_wait:
  "worker_wait 50 0 1 = 100 \<and> simulator_wait 0 1 = 5000 \<and> processor_wait 10 0 1 = 10000"
  by (simp add: simulator_wait_def processor_wait_def eval_nat_numeral)

end
